theory Spec2Isabelle
  imports Complex_Main
begin

section \<open>JavaScript strings and errors\<close>

text \<open>
  A JavaScript string is modelled as a \<open>string\<close> (a list of characters), and the
  model is one of ASCII text: \<open>toLowerCase\<close> and \<open>toUpperCase\<close> convert the letters
  \<open>a..z\<close> / \<open>A..Z\<close> and leave every other character alone, and whitespace is tab,
  line feed, vertical tab, form feed, carriage return and space. Numbers that index
  a string are integers. A thrown exception (or a rejected promise) is a value of
  \<open>js_error\<close>; a function that can throw returns \<open>js_error + 'a\<close>, with \<open>Inl\<close> the
  exception.
\<close>

datatype js_error = Error string | TypeError string | SyntaxError string

fun error_message :: "js_error \<Rightarrow> string" where
  "error_message (Error m) = m"
| "error_message (TypeError m) = m"
| "error_message (SyntaxError m) = m"

definition lower_letters :: string where
  "lower_letters = ''abcdefghijklmnopqrstuvwxyz''"

definition upper_letters :: string where
  "upper_letters = ''ABCDEFGHIJKLMNOPQRSTUVWXYZ''"

definition toUpperCase_char :: "char \<Rightarrow> char" where
  "toUpperCase_char c =
     (case map_of (zip lower_letters upper_letters) c of Some u \<Rightarrow> u | None \<Rightarrow> c)"

definition toLowerCase_char :: "char \<Rightarrow> char" where
  "toLowerCase_char c =
     (case map_of (zip upper_letters lower_letters) c of Some l \<Rightarrow> l | None \<Rightarrow> c)"

definition toUpperCase :: "string \<Rightarrow> string" where
  "toUpperCase s = map toUpperCase_char s"

definition toLowerCase :: "string \<Rightarrow> string" where
  "toLowerCase s = map toLowerCase_char s"

text \<open>\<open>s.substring(a, b)\<close>: both indices are clamped to \<open>[0, s.length]\<close> and swapped
  when \<open>a > b\<close>.\<close>

definition substring :: "string \<Rightarrow> int \<Rightarrow> int \<Rightarrow> string" where
  "substring s start stop =
     (let n = int (length s);
          a = max 0 (min start n);
          b = max 0 (min stop n);
          lo = min a b;
          hi = max a b
      in take (nat (hi - lo)) (drop (nat lo) s))"

definition is_space :: "char \<Rightarrow> bool" where
  "is_space c = (c \<in> set [CHR 0x09, CHR 0x0A, CHR 0x0B, CHR 0x0C, CHR 0x0D, CHR 0x20])"

text \<open>\<open>s.split(/\s+/)\<close>: the pieces between the maximal runs of whitespace; a leading
  or trailing run leaves an empty first or last piece, and the empty string gives
  \<open>['']\<close>.\<close>

function split_ws :: "string \<Rightarrow> string list" where
  "split_ws [] = [[]]"
| "split_ws (c # cs) =
     (if is_space c then [] # split_ws (dropWhile is_space cs)
      else (case split_ws cs of
              [] \<Rightarrow> [[c]]
            | w # ws \<Rightarrow> (c # w) # ws))"
  by pat_completeness auto
termination
  by (relation "measure length") (auto simp: le_imp_less_Suc length_dropWhile_le)

text \<open>\<open>/[.!?]\s*$/.test(s)\<close>: the last character of \<open>s\<close> that is not whitespace is
  one of \<open>.\<close>, \<open>!\<close>, \<open>?\<close>.\<close>

definition ends_sentence :: "string \<Rightarrow> bool" where
  "ends_sentence s =
     (case dropWhile is_space (rev s) of
        [] \<Rightarrow> False
      | c # _ \<Rightarrow> c \<in> set [CHR ''.'', CHR ''!'', CHR ''?''])"

text \<open>\<open>s.includes(sub)\<close>.\<close>

fun includes_str :: "string \<Rightarrow> string \<Rightarrow> bool" where
  "includes_str [] sub = (sub = [])"
| "includes_str (c # cs) sub = (take (length sub) (c # cs) = sub \<or> includes_str cs sub)"

text \<open>\<open>xs.map(f)\<close> with a callback that can throw: the first exception ends the map.\<close>

fun map_throwing :: "('a \<Rightarrow> js_error + 'b) \<Rightarrow> 'a list \<Rightarrow> js_error + 'b list" where
  "map_throwing f [] = Inr []"
| "map_throwing f (x # xs) =
     (case f x of
        Inl e \<Rightarrow> Inl e
      | Inr y \<Rightarrow> (case map_throwing f xs of
                   Inl e \<Rightarrow> Inl e
                 | Inr ys \<Rightarrow> Inr (y # ys)))"

section \<open>The suggestion ranker (languagetool.ts)\<close>

definition COMMON_WORDS :: "string list" where
  "COMMON_WORDS =
    [''hello'', ''help'', ''here'', ''there'', ''have'', ''has'', ''had'', ''will'', ''would'',
     ''could'', ''should'', ''can'', ''may'', ''might'', ''must'', ''the'', ''be'', ''to'', ''of'',
     ''and'', ''a'', ''in'', ''that'', ''have'', ''i'', ''it'', ''for'', ''not'', ''on'', ''with'',
     ''he'', ''as'', ''you'', ''do'', ''at'', ''this'', ''but'', ''his'', ''by'', ''from'', ''they'',
     ''we'', ''say'', ''her'', ''she'', ''or'', ''an'', ''will'', ''my'', ''one'', ''all'', ''would'',
     ''there'', ''their'', ''what'', ''so'', ''up'', ''out'', ''if'', ''about'', ''who'', ''get'',
     ''which'', ''go'', ''me'', ''when'', ''make'', ''can'', ''like'', ''time'', ''no'', ''just'',
     ''him'', ''know'', ''take'', ''people'', ''into'', ''year'', ''your'', ''good'', ''some'',
     ''them'', ''see'', ''other'', ''than'', ''then'', ''now'', ''look'', ''only'', ''come'',
     ''its'', ''over'', ''think'', ''also'', ''back'', ''after'', ''use'', ''two'', ''how'',
     ''our'', ''work'', ''first'', ''well'', ''way'', ''even'', ''new'', ''want'', ''because'',
     ''any'', ''these'', ''give'', ''day'', ''most'', ''us'']"

definition greetings :: "string list" where
  "greetings = [''hello'', ''hi'', ''hey'', ''dear'', ''greetings'']"

text \<open>
  \<open>getEditDistance(a, b)\<close> fills a matrix with one row per character of \<open>b\<close>. Row 0 is
  \<open>[0, 1, ..., a.length]\<close>; row \<open>i\<close> starts with \<open>i\<close> and each later cell is computed from
  the cell above-left (\<open>d\<close>), the cell to the left (\<open>left\<close>) and the cell above (\<open>u\<close>).
  \<open>fill_row\<close> is the inner loop over \<open>j\<close>, \<open>fill_rows\<close> the outer loop over \<open>i\<close>; the
  result is the last cell of the last row.
\<close>

fun fill_row :: "char \<Rightarrow> string \<Rightarrow> nat list \<Rightarrow> nat \<Rightarrow> nat list" where
  "fill_row bc (ac # as) (d # u # prev) left =
     (let v = (if bc = ac then d else min (d + 1) (min (left + 1) (u + 1)))
      in v # fill_row bc as (u # prev) v)"
| "fill_row bc as prev left = []"

fun fill_rows :: "string \<Rightarrow> string \<Rightarrow> nat \<Rightarrow> nat list \<Rightarrow> nat list" where
  "fill_rows a [] i prev = prev"
| "fill_rows a (bc # bs) i prev = fill_rows a bs (i + 1) (i # fill_row bc a prev i)"

definition getEditDistance :: "string \<Rightarrow> string \<Rightarrow> nat" where
  "getEditDistance a b = last (fill_rows a b 1 [0 ..< length a + 1])"

text \<open>
  Lines 79-83 of \<open>scoreSuggestion\<close>:
  \<open>originalWord[0] === originalWord[0].toUpperCase() && suggestion[0] === suggestion[0].toUpperCase()\<close>.
  Indexing an empty string gives \<open>undefined\<close>, and calling \<open>toUpperCase\<close> on it throws a
  TypeError; \<open>&&\<close> evaluates its right operand only when the left one is true.
\<close>

definition toUpperCase_of_undefined :: js_error where
  "toUpperCase_of_undefined =
     TypeError ''Cannot read properties of undefined (reading toUpperCase)''"

definition startsUpper :: "string \<Rightarrow> js_error + bool" where
  "startsUpper s =
     (case s of
        [] \<Rightarrow> Inl toUpperCase_of_undefined
      | c # _ \<Rightarrow> Inr ([c] = toUpperCase [c]))"

definition keepsCapitalization :: "string \<Rightarrow> string \<Rightarrow> js_error + bool" where
  "keepsCapitalization originalWord suggestion =
     (case startsUpper originalWord of
        Inl e \<Rightarrow> Inl e
      | Inr False \<Rightarrow> Inr False
      | Inr True \<Rightarrow> startsUpper suggestion)"

text \<open>The score is a JavaScript number; every value it takes here is a multiple of
  \<open>0.5\<close>, which doubles represent exactly, so it is modelled as a rational.\<close>

definition scoreSuggestion ::
  "string \<Rightarrow> string \<Rightarrow> string \<Rightarrow> string \<Rightarrow> bool \<Rightarrow> js_error + rat" where
  "scoreSuggestion suggestion originalWord contextBefore contextAfter isStartOfSentence =
     (let suggestionLower = toLowerCase suggestion;
          originalLower = toLowerCase originalWord;
          score1 = (if suggestionLower \<in> set COMMON_WORDS then 10 else 0);
          score2 = (if isStartOfSentence \<and> suggestionLower \<in> set greetings
                    then score1 + 15 else score1)
      in case keepsCapitalization originalWord suggestion of
           Inl e \<Rightarrow> Inl e
         | Inr keeps \<Rightarrow>
             (let score3 = (if keeps then score2 + 5 else score2);
                  lengthDiff = \<bar>int (length suggestion) - int (length originalWord)\<bar>;
                  score4 = score3 - of_int lengthDiff * (1 / 2);
                  editDistance = getEditDistance originalLower suggestionLower;
                  score5 = score4 - of_nat editDistance;
                  contextWords = split_ws (toLowerCase (contextBefore @ '' '' @ contextAfter));
                  score6 = (if suggestionLower = ''hello'' \<and> ''how'' \<in> set contextWords
                            then score5 + 20 else score5);
                  score7 = (if suggestionLower = ''help'' \<and>
                               (''need'' \<in> set contextWords \<or> ''can'' \<in> set contextWords)
                            then score6 + 10 else score6)
              in Inr score7))"

text \<open>
  \<open>Array.prototype.sort\<close> is stable; it is modelled as the insertion sort that places
  an element before the first later element the comparator does not put ahead of it.
  The comparator of the source is \<open>(a, b) => b.score - a.score\<close>.
\<close>

fun insert_by :: "('a \<Rightarrow> 'a \<Rightarrow> rat) \<Rightarrow> 'a \<Rightarrow> 'a list \<Rightarrow> 'a list" where
  "insert_by cmp x [] = [x]"
| "insert_by cmp x (y # ys) =
     (if cmp x y \<le> 0 then x # y # ys else y # insert_by cmp x ys)"

definition sort_by :: "('a \<Rightarrow> 'a \<Rightarrow> rat) \<Rightarrow> 'a list \<Rightarrow> 'a list" where
  "sort_by cmp xs = foldr (insert_by cmp) xs []"

definition by_score_desc :: "string \<times> rat \<Rightarrow> string \<times> rat \<Rightarrow> rat" where
  "by_score_desc a b = snd b - snd a"

definition smartOrderSuggestions ::
  "string list \<Rightarrow> string \<Rightarrow> string \<Rightarrow> int \<Rightarrow> js_error + string list" where
  "smartOrderSuggestions suggestions originalWord fullText errorOffset =
     (let contextBefore = substring fullText (max 0 (errorOffset - 50)) errorOffset;
          contextAfter = substring fullText (errorOffset + int (length originalWord))
                           (errorOffset + int (length originalWord) + 50);
          isStartOfSentence = (errorOffset = 0 \<or> ends_sentence contextBefore)
      in case map_throwing
                (\<lambda>suggestion.
                   case scoreSuggestion suggestion originalWord contextBefore contextAfter
                          isStartOfSentence of
                     Inl e \<Rightarrow> Inl e
                   | Inr score \<Rightarrow> Inr (suggestion, score))
                suggestions of
           Inl e \<Rightarrow> Inl e
         | Inr scoredSuggestions \<Rightarrow> Inr (map fst (sort_by by_score_desc scoredSuggestions)))"

text \<open>The score \<open>smartOrderSuggestions\<close> gives one suggestion: \<open>scoreSuggestion\<close> on the
  context it cuts out of the full text. \<open>with_score\<close> is the callback of the first
  \<open>map\<close>.\<close>

definition ranking_score :: "string \<Rightarrow> string \<Rightarrow> int \<Rightarrow> string \<Rightarrow> js_error + rat" where
  "ranking_score originalWord fullText errorOffset suggestion =
     scoreSuggestion suggestion originalWord
       (substring fullText (max 0 (errorOffset - 50)) errorOffset)
       (substring fullText (errorOffset + int (length originalWord))
          (errorOffset + int (length originalWord) + 50))
       (errorOffset = 0 \<or>
        ends_sentence (substring fullText (max 0 (errorOffset - 50)) errorOffset))"

definition with_score ::
  "(string \<Rightarrow> js_error + rat) \<Rightarrow> string \<Rightarrow> js_error + string \<times> rat" where
  "with_score sc suggestion =
     (case sc suggestion of Inl e \<Rightarrow> Inl e | Inr score \<Rightarrow> Inr (suggestion, score))"

section \<open>The normalized error and the rule-based provider (languagetool.ts)\<close>

datatype ErrorType = Grammar | Spelling | Style | Punctuation | Other

record display_context =
  ctx_text :: string
  ctx_offset :: int
  ctx_length :: int

text \<open>\<open>GrammarError\<close> of \<open>types/grammar.ts\<close>; \<open>rule\<close> is flattened into three fields.\<close>

record GrammarError =
  message :: string
  shortMessage :: "string option"
  offset :: int
  err_length :: int
  replacements :: "string list"
  rule_id :: string
  rule_description :: string
  rule_category :: string
  err_type :: ErrorType
  err_context :: "display_context option"

text \<open>\<open>LanguageToolMatch\<close>; \<open>replacements\<close> holds the \<open>value\<close> of each entry, and
  \<open>m_type_typeName\<close> is \<open>match.type?.typeName\<close>.\<close>

record LanguageToolMatch =
  m_message :: string
  m_shortMessage :: "string option"
  m_offset :: int
  m_length :: int
  m_replacements :: "string list"
  m_rule_id :: string
  m_rule_description :: string
  m_rule_category_id :: string
  m_rule_category_name :: string
  m_context :: display_context
  m_type_typeName :: "string option"

text \<open>\<open>LanguageToolResponse\<close>; \<open>None\<close> is a payload without a \<open>matches\<close> array.\<close>

record LanguageToolResponse =
  matches :: "LanguageToolMatch list option"

definition mapErrorType :: "string \<Rightarrow> string option \<Rightarrow> ErrorType" where
  "mapErrorType category typeName =
     (let categoryLower = toLowerCase category;
          typeNameLower = (case typeName of None \<Rightarrow> [] | Some t \<Rightarrow> toLowerCase t)
      in if includes_str categoryLower ''spell'' \<or> includes_str typeNameLower ''spell''
         then Spelling
         else if includes_str categoryLower ''grammar'' \<or> includes_str typeNameLower ''grammar''
         then Grammar
         else if includes_str categoryLower ''style'' \<or> includes_str typeNameLower ''style''
         then Style
         else if includes_str categoryLower ''punctuation'' \<or>
                 includes_str typeNameLower ''punctuation''
         then Punctuation
         else Other)"

definition normalizeMatch :: "LanguageToolMatch \<Rightarrow> string \<Rightarrow> js_error + GrammarError" where
  "normalizeMatch match fullText =
     (let originalWord = substring fullText (m_offset match) (m_offset match + m_length match);
          suggestions = m_replacements match
      in case smartOrderSuggestions suggestions originalWord fullText (m_offset match) of
           Inl e \<Rightarrow> Inl e
         | Inr orderedSuggestions \<Rightarrow>
             Inr \<lparr> message = m_message match,
                   shortMessage = m_shortMessage match,
                   offset = m_offset match,
                   err_length = m_length match,
                   replacements = take 5 orderedSuggestions,
                   rule_id = m_rule_id match,
                   rule_description = m_rule_description match,
                   rule_category = m_rule_category_name match,
                   err_type = mapErrorType (m_rule_category_id match) (m_type_typeName match),
                   err_context = Some (m_context match) \<rparr>)"

text \<open>What a \<open>fetch\<close> can come to: the promise rejects, or a response arrives with its
  \<open>ok\<close> flag, status, status text and the outcome of \<open>response.json()\<close>.\<close>

datatype 'a http_outcome =
    FetchRejected js_error
  | HttpResponse bool nat string "js_error + 'a"

text \<open>A number in a template string, for the natural numbers used here.\<close>

fun decimal :: "nat \<Rightarrow> string" where
  "decimal n =
     (if n < 10 then [char_of (48 + n)]
      else decimal (n div 10) @ [char_of (48 + n mod 10)])"

declare decimal.simps [simp del]

text \<open>An OpenRouter reply: \<open>choices\<close> is \<open>None\<close> when the payload has no such array, and
  each choice is its \<open>message?.content\<close>.\<close>

record OpenRouterResponse =
  choices :: "string option list option"

text \<open>\<open>OpenAIGrammarError\<close> and \<open>OpenRouterGrammarError\<close> declare the same fields.\<close>

record LLMGrammarError =
  g_message :: string
  g_shortMessage :: "string option"
  g_offset :: int
  g_length :: int
  g_replacements :: "string list"
  g_ruleId :: string
  g_ruleDescription :: string
  g_category :: string
  g_type :: ErrorType

text \<open>\<open>OpenAIGrammarResponse\<close> / \<open>OpenRouterGrammarResponse\<close>; \<open>None\<close> is a parsed value
  whose \<open>errors\<close> is missing (or, for OpenRouter's \<open>Array.isArray\<close> test, not an array).\<close>

record LLMGrammarResponse =
  errors :: "LLMGrammarError list option"

datatype kv_op = KvGet string | KvSet string | KvIncr string | KvExists string

text \<open>
  Everything a request reads from outside the code: the environment variables, the
  outcome of each outbound call, the runtime's \<open>JSON.parse\<close> and SHA-256, whether
  loading the store client or an operation on the store throws, and the clock.
\<close>

record world =
  KV_URL :: "string option"
  KV_REST_API_URL :: "string option"
  KV_REST_API_TOKEN :: "string option"
  OPENAI_API_KEY :: "string option"
  OPENROUTER_API_KEY :: "string option"
  languagetool_fetch :: "string \<Rightarrow> string \<Rightarrow> LanguageToolResponse http_outcome"
  openrouter_fetch :: "string \<Rightarrow> string \<Rightarrow> string \<Rightarrow> OpenRouterResponse http_outcome"
  openai_create :: "string \<Rightarrow> string \<Rightarrow> string \<Rightarrow> js_error + string option"
  JSON_parse :: "string \<Rightarrow> js_error + LLMGrammarResponse"
  sha256_hex :: "string \<Rightarrow> string"
  kv_import :: "js_error option"
  kv_fault :: "kv_op \<Rightarrow> js_error option"
  date_now :: "nat \<Rightarrow> int"

text \<open>An environment variable is falsy when it is unset or empty.\<close>

definition truthy_env :: "string option \<Rightarrow> bool" where
  "truthy_env v = (case v of None \<Rightarrow> False | Some s \<Rightarrow> s \<noteq> [])"

text \<open>The string held by a variable the code has just tested to be truthy.\<close>

definition str_value :: "string option \<Rightarrow> string" where
  "str_value v = (case v of None \<Rightarrow> [] | Some s \<Rightarrow> s)"

definition languagetool_failure :: "js_error \<Rightarrow> js_error" where
  "languagetool_failure e =
     Error (''Failed to check text with LanguageTool: '' @ error_message e)"

definition checkWithLanguageTool ::
  "world \<Rightarrow> string \<Rightarrow> string \<Rightarrow> js_error + GrammarError list" where
  "checkWithLanguageTool w text language =
     (case languagetool_fetch w text language of
        FetchRejected e \<Rightarrow> Inl (languagetool_failure e)
      | HttpResponse ok status statusText json \<Rightarrow>
          if \<not> ok
          then Inl (languagetool_failure
                 (Error (''LanguageTool API error: '' @ decimal status @ '' '' @ statusText)))
          else (case json of
                  Inl e \<Rightarrow> Inl (languagetool_failure e)
                | Inr data \<Rightarrow>
                    (case matches data of
                       None \<Rightarrow>
                         Inl (languagetool_failure
                           (TypeError ''Cannot read properties of undefined (reading map)''))
                     | Some ms \<Rightarrow>
                         (case map_throwing (\<lambda>match. normalizeMatch match text) ms of
                            Inl e \<Rightarrow> Inl (languagetool_failure e)
                          | Inr result \<Rightarrow> Inr result))))"

section \<open>The premium provider (openai.ts)\<close>

definition normalizeOpenAIError :: "LLMGrammarError \<Rightarrow> GrammarError" where
  "normalizeOpenAIError error =
     \<lparr> message = g_message error,
       shortMessage = g_shortMessage error,
       offset = g_offset error,
       err_length = g_length error,
       replacements = take 5 (g_replacements error),
       rule_id = g_ruleId error,
       rule_description = g_ruleDescription error,
       rule_category = g_category error,
       err_type = g_type error,
       err_context = None \<rparr>"

definition openai_failure :: "js_error \<Rightarrow> js_error" where
  "openai_failure e = Error (''Failed to check text with OpenAI: '' @ error_message e)"

text \<open>\<open>openai_create w apiKey text language\<close> is the outcome of building the client and
  of \<open>chat.completions.create\<close>: an exception, or \<open>choices[0]?.message?.content\<close>.\<close>

definition checkWithOpenAI ::
  "world \<Rightarrow> string \<Rightarrow> string \<Rightarrow> js_error + GrammarError list" where
  "checkWithOpenAI w text language =
     (if \<not> truthy_env (OPENAI_API_KEY w)
      then Inl (Error ''OpenAI API key not configured'')
      else (case openai_create w (str_value (OPENAI_API_KEY w)) text language of
              Inl e \<Rightarrow> Inl (openai_failure e)
            | Inr content \<Rightarrow>
                if \<not> truthy_env content
                then Inl (openai_failure (Error ''No response from OpenAI''))
                else (case JSON_parse w (str_value content) of
                        Inl e \<Rightarrow> Inl (openai_failure e)
                      | Inr response \<Rightarrow>
                          Inr (map normalizeOpenAIError
                                 (case errors response of None \<Rightarrow> [] | Some es \<Rightarrow> es)))))"

section \<open>The free-tier provider with its fallback (openrouter.ts)\<close>

definition normalizeOpenRouterError :: "LLMGrammarError \<Rightarrow> GrammarError" where
  "normalizeOpenRouterError error =
     \<lparr> message = g_message error,
       shortMessage = g_shortMessage error,
       offset = g_offset error,
       err_length = g_length error,
       replacements = take 5 (g_replacements error),
       rule_id = g_ruleId error,
       rule_description = g_ruleDescription error,
       rule_category = g_category error,
       err_type = g_type error,
       err_context = None \<rparr>"

text \<open>\<open>data.choices[0]?.message?.content\<close>.\<close>

definition first_choice_content :: "OpenRouterResponse \<Rightarrow> js_error + string option" where
  "first_choice_content data =
     (case choices data of
        None \<Rightarrow> Inl (TypeError ''Cannot read properties of undefined (reading 0)'')
      | Some [] \<Rightarrow> Inr None
      | Some (c # _) \<Rightarrow> Inr c)"

text \<open>The body of the \<open>try\<close> block of \<open>checkWithOpenRouter\<close> (lines 66-136).\<close>

definition openrouter_attempt ::
  "world \<Rightarrow> string \<Rightarrow> string \<Rightarrow> string \<Rightarrow> js_error + GrammarError list" where
  "openrouter_attempt w apiKey text language =
     (case openrouter_fetch w apiKey text language of
        FetchRejected e \<Rightarrow> Inl e
      | HttpResponse ok status statusText json \<Rightarrow>
          if \<not> ok then Inl (Error ''OpenRouter unavailable'')
          else (case json of
                  Inl e \<Rightarrow> Inl e
                | Inr data \<Rightarrow>
                    (case first_choice_content data of
                       Inl e \<Rightarrow> Inl e
                     | Inr content \<Rightarrow>
                         if \<not> truthy_env content
                         then Inl (Error ''No response from OpenRouter'')
                         else (case JSON_parse w (str_value content) of
                                 Inl parseError \<Rightarrow> Inl parseError
                               | Inr grammarResponse \<Rightarrow>
                                   (case errors grammarResponse of
                                      Some es \<Rightarrow> Inr (map normalizeOpenRouterError es)
                                    | None \<Rightarrow> Inr [])))))"

definition checkWithOpenRouter ::
  "world \<Rightarrow> string \<Rightarrow> string \<Rightarrow> js_error + GrammarError list" where
  "checkWithOpenRouter w text language =
     (if \<not> truthy_env (OPENROUTER_API_KEY w)
      then checkWithLanguageTool w text language
      else (case openrouter_attempt w (str_value (OPENROUTER_API_KEY w)) text language of
              Inl e \<Rightarrow> checkWithLanguageTool w text language
            | Inr result \<Rightarrow> Inr result))"

text \<open>
  The cases of the fallback policy, from the specification: no credential is
  configured, or the call fails: the request is rejected, the response is not 2xx,
  its body is not JSON or has no \<open>choices\<close>, the content is missing or empty, or the
  content is not JSON.
\<close>

definition openrouter_unconfigured :: "world \<Rightarrow> bool" where
  "openrouter_unconfigured w = (OPENROUTER_API_KEY w = None \<or> OPENROUTER_API_KEY w = Some [])"

definition openrouter_call_fails :: "world \<Rightarrow> string \<Rightarrow> string \<Rightarrow> bool" where
  "openrouter_call_fails w text language =
     (case openrouter_fetch w (str_value (OPENROUTER_API_KEY w)) text language of
        FetchRejected e \<Rightarrow> True
      | HttpResponse ok status statusText json \<Rightarrow>
          (if ok
           then (case json of
                   Inl e \<Rightarrow> True
                 | Inr data \<Rightarrow>
                     (case choices data of
                        None \<Rightarrow> True
                      | Some [] \<Rightarrow> True
                      | Some (None # _) \<Rightarrow> True
                      | Some (Some content # _) \<Rightarrow>
                          content = [] \<or> isl (JSON_parse w content)))
           else True))"

section \<open>The result cache (cache.ts)\<close>

datatype call =
    TrackSession string
  | GetCachedResult string
  | ProviderCall string string string
  | SetCachedResult string "GrammarError list"
  | IncrementProviderUsage string

text \<open>
  The state a request can change: the module variable \<open>kv\<close> (here: whether the store
  client has been loaded), the remote store, split by what this code keeps in it
  (cached results with their expiry in seconds, counters, session markers with their
  expiry), and the list of the calls the orchestrator has made, latest first. Expiry
  is recorded, the passing of time is not modelled. Work the source starts without
  awaiting it (\<open>trackSession\<close>, \<open>setCachedResult\<close>, \<open>incrementProviderUsage\<close>) takes
  effect here at the point where it is started.
\<close>

record server_state =
  kv :: bool
  cache_entries :: "string \<rightharpoonup> GrammarError list \<times> int"
  counters :: "string \<rightharpoonup> int"
  session_markers :: "string \<rightharpoonup> int \<times> int"
  calls :: "call list"

definition isKVConfigured :: "world \<Rightarrow> bool" where
  "isKVConfigured w =
     (truthy_env (KV_URL w) \<and> truthy_env (KV_REST_API_URL w) \<and> truthy_env (KV_REST_API_TOKEN w))"

text \<open>\<open>getKV\<close>: \<open>Inr False\<close> is \<open>null\<close>, \<open>Inr True\<close> the client; the dynamic import
  can throw.\<close>

definition getKV :: "world \<Rightarrow> server_state \<Rightarrow> (js_error + bool) \<times> server_state" where
  "getKV w s =
     (if \<not> isKVConfigured w then (Inr False, s)
      else if \<not> kv s
      then (case kv_import w of
              Some e \<Rightarrow> (Inl e, s)
            | None \<Rightarrow> (Inr True, s\<lparr>kv := True\<rparr>))
      else (Inr True, s))"

definition CACHE_TTL :: int where
  "CACHE_TTL = 24 * 60 * 60"

definition generateCacheKey :: "world \<Rightarrow> string \<Rightarrow> string \<Rightarrow> string \<Rightarrow> string" where
  "generateCacheKey w provider language text =
     (let hash = substring (sha256_hex w text) 0 16
      in ''grammar:'' @ provider @ '':'' @ language @ '':'' @ hash)"

text \<open>The shape of a SHA-256 digest in hexadecimal: 64 lowercase hex digits.\<close>

definition hex_digits :: string where
  "hex_digits = ''0123456789abcdef''"

definition is_sha256_hex :: "string \<Rightarrow> bool" where
  "is_sha256_hex d = (length d = 64 \<and> list_all (\<lambda>c. c \<in> set hex_digits) d)"

text \<open>The \<open>try\<close> block of \<open>getCachedResult\<close>, then the function with its \<open>catch\<close>.\<close>

definition getCachedResult_try ::
  "world \<Rightarrow> string \<Rightarrow> server_state \<Rightarrow> (js_error + GrammarError list option) \<times> server_state" where
  "getCachedResult_try w key s =
     (case getKV w s of
        (Inl e, s') \<Rightarrow> (Inl e, s')
      | (Inr False, s') \<Rightarrow> (Inr None, s')
      | (Inr True, s') \<Rightarrow>
          (case kv_fault w (KvGet key) of
             Some e \<Rightarrow> (Inl e, s')
           | None \<Rightarrow> (Inr (map_option fst (cache_entries s' key)), s')))"

definition getCachedResult ::
  "world \<Rightarrow> string \<Rightarrow> server_state \<Rightarrow> (js_error + GrammarError list option) \<times> server_state" where
  "getCachedResult w key s =
     (case getCachedResult_try w key s of
        (Inl error, s') \<Rightarrow> (Inr None, s')
      | (Inr cached, s') \<Rightarrow> (Inr cached, s'))"

definition setCachedResult_try ::
  "world \<Rightarrow> string \<Rightarrow> GrammarError list \<Rightarrow> int \<Rightarrow> server_state \<Rightarrow>
     (js_error + unit) \<times> server_state" where
  "setCachedResult_try w key errs ttl s =
     (case getKV w s of
        (Inl e, s') \<Rightarrow> (Inl e, s')
      | (Inr False, s') \<Rightarrow> (Inr (), s')
      | (Inr True, s') \<Rightarrow>
          (case kv_fault w (KvSet key) of
             Some e \<Rightarrow> (Inl e, s')
           | None \<Rightarrow> (Inr (), s'\<lparr>cache_entries := (cache_entries s')(key \<mapsto> (errs, ttl))\<rparr>)))"

definition setCachedResult ::
  "world \<Rightarrow> string \<Rightarrow> GrammarError list \<Rightarrow> int \<Rightarrow> server_state \<Rightarrow>
     (js_error + unit) \<times> server_state" where
  "setCachedResult w key errs ttl s =
     (case setCachedResult_try w key errs ttl s of
        (Inl error, s') \<Rightarrow> (Inr (), s')
      | (Inr u, s') \<Rightarrow> (Inr u, s'))"

definition kv_incr :: "string \<Rightarrow> server_state \<Rightarrow> server_state" where
  "kv_incr key s =
     s\<lparr>counters := (counters s)(key \<mapsto> (case counters s key of None \<Rightarrow> 1 | Some n \<Rightarrow> n + 1))\<rparr>"

definition incrementProviderUsage_try ::
  "world \<Rightarrow> string \<Rightarrow> server_state \<Rightarrow> (js_error + unit) \<times> server_state" where
  "incrementProviderUsage_try w provider s =
     (case getKV w s of
        (Inl e, s') \<Rightarrow> (Inl e, s')
      | (Inr False, s') \<Rightarrow> (Inr (), s')
      | (Inr True, s') \<Rightarrow>
          (let key = ''usage:'' @ provider @ '':count''
           in case kv_fault w (KvIncr key) of
                Some e \<Rightarrow> (Inl e, s')
              | None \<Rightarrow> (Inr (), kv_incr key s')))"

definition incrementProviderUsage ::
  "world \<Rightarrow> string \<Rightarrow> server_state \<Rightarrow> (js_error + unit) \<times> server_state" where
  "incrementProviderUsage w provider s =
     (case incrementProviderUsage_try w provider s of
        (Inl error, s') \<Rightarrow> (Inr (), s')
      | (Inr u, s') \<Rightarrow> (Inr u, s'))"

text \<open>\<open>trackSession\<close>; the marker's value is the clock reading \<open>date_now w 3\<close>.\<close>

definition trackSession_try ::
  "world \<Rightarrow> string \<Rightarrow> server_state \<Rightarrow> (js_error + unit) \<times> server_state" where
  "trackSession_try w sessionId s =
     (case getKV w s of
        (Inl e, s') \<Rightarrow> (Inl e, s')
      | (Inr False, s') \<Rightarrow> (Inr (), s')
      | (Inr True, s') \<Rightarrow>
          (let key = ''session:'' @ sessionId
           in case kv_fault w (KvExists key) of
                Some e \<Rightarrow> (Inl e, s')
              | None \<Rightarrow>
                  if session_markers s' key \<noteq> None then (Inr (), s')
                  else (case kv_fault w (KvSet key) of
                          Some e \<Rightarrow> (Inl e, s')
                        | None \<Rightarrow>
                            (let s'' = s'\<lparr>session_markers :=
                                         (session_markers s')(key \<mapsto> (date_now w 3, 30 * 24 * 60 * 60))\<rparr>
                             in case kv_fault w (KvIncr ''sessions:total'') of
                                  Some e \<Rightarrow> (Inl e, s'')
                                | None \<Rightarrow> (Inr (), kv_incr ''sessions:total'' s'')))))"

definition trackSession ::
  "world \<Rightarrow> string \<Rightarrow> server_state \<Rightarrow> (js_error + unit) \<times> server_state" where
  "trackSession w sessionId s =
     (case trackSession_try w sessionId s of
        (Inl error, s') \<Rightarrow> (Inr (), s')
      | (Inr u, s') \<Rightarrow> (Inr u, s'))"

section \<open>The request orchestrator (app/api/grammar-check/route.ts)\<close>

text \<open>
  The fields \<open>text\<close> and \<open>provider\<close> of the request body are tested at run time, so
  they are arbitrary JSON values (or \<open>undefined\<close> when missing); \<open>sessionId\<close> and
  \<open>language\<close> have their declared type, \<open>None\<close> when missing. A request whose body
  cannot be read as an object (\<open>request.json()\<close> or the destructuring throws) is
  \<open>BodyRejected\<close>.
\<close>

datatype js_value =
    JUndefined
  | JNull
  | JBool bool
  | JNumber rat
  | JString string
  | JArray "js_value list"
  | JObject "(string \<times> js_value) list"

fun truthy :: "js_value \<Rightarrow> bool" where
  "truthy JUndefined = False"
| "truthy JNull = False"
| "truthy (JBool b) = b"
| "truthy (JNumber n) = (n \<noteq> 0)"
| "truthy (JString s) = (s \<noteq> [])"
| "truthy (JArray xs) = True"
| "truthy (JObject kvs) = True"

fun typeof :: "js_value \<Rightarrow> string" where
  "typeof JUndefined = ''undefined''"
| "typeof JNull = ''object''"
| "typeof (JBool b) = ''boolean''"
| "typeof (JNumber n) = ''number''"
| "typeof (JString s) = ''string''"
| "typeof (JArray xs) = ''object''"
| "typeof (JObject kvs) = ''object''"

fun string_of :: "js_value \<Rightarrow> string" where
  "string_of (JString s) = s"
| "string_of v = []"

text \<open>\<open>names.includes(v)\<close> for an array of strings: only an equal string is found.\<close>

fun includes_value :: "string list \<Rightarrow> js_value \<Rightarrow> bool" where
  "includes_value names (JString s) = (s \<in> set names)"
| "includes_value names v = False"

record GrammarCheckRequest =
  rq_text :: js_value
  rq_provider :: js_value
  rq_sessionId :: "string option"
  rq_language :: "string option"

datatype request = BodyRejected js_error | Body GrammarCheckRequest

record metadata =
  md_provider :: string
  md_processingTime :: int
  md_cached :: bool
  md_timestamp :: int
  md_language :: string

datatype reply_body =
    ErrorBody string
  | ResultBody "GrammarError list" metadata

record http_reply =
  status :: nat
  body :: reply_body

definition MAX_TEXT_LENGTH :: nat where
  "MAX_TEXT_LENGTH = 10000"

definition known_providers :: "string list" where
  "known_providers = [''languagetool'', ''openai'', ''openrouter'']"

definition json_reply :: "nat \<Rightarrow> reply_body \<Rightarrow> http_reply" where
  "json_reply st b = \<lparr> status = st, body = b \<rparr>"

definition record_call :: "call \<Rightarrow> server_state \<Rightarrow> server_state" where
  "record_call c s = s\<lparr>calls := c # calls s\<rparr>"

text \<open>The \<open>switch\<close> of lines 76-88.\<close>

definition dispatch_provider ::
  "world \<Rightarrow> string \<Rightarrow> string \<Rightarrow> string \<Rightarrow> js_error + GrammarError list" where
  "dispatch_provider w provider text language =
     (if provider = ''languagetool'' then checkWithLanguageTool w text language
      else if provider = ''openai'' then checkWithOpenAI w text language
      else if provider = ''openrouter'' then checkWithOpenRouter w text language
      else Inl (Error ''Invalid provider''))"

text \<open>The part of \<open>POST\<close> after validation (lines 46-116), for a valid text, provider
  and language. The clock is read as \<open>date_now w 0\<close> on entry, then \<open>date_now w 1\<close>
  for the processing time and \<open>date_now w 2\<close> for the timestamp.\<close>

definition check_request ::
  "world \<Rightarrow> string \<Rightarrow> string \<Rightarrow> string option \<Rightarrow> string \<Rightarrow> server_state \<Rightarrow>
     http_reply \<times> server_state" where
  "check_request w text provider sessionId language s =
     (let startTime = date_now w 0;
          s1 = (if truthy_env sessionId
                then snd (trackSession w (str_value sessionId)
                            (record_call (TrackSession (str_value sessionId)) s))
                else s);
          cacheKey = generateCacheKey w provider language text
      in case getCachedResult w cacheKey (record_call (GetCachedResult cacheKey) s1) of
           (Inl e, s2) \<Rightarrow> (json_reply 500 (ErrorBody ''Internal server error''), s2)
         | (Inr (Some cachedResult), s2) \<Rightarrow>
             (json_reply 200
                (ResultBody cachedResult
                   \<lparr> md_provider = provider,
                     md_processingTime = date_now w 1 - startTime,
                     md_cached = True,
                     md_timestamp = date_now w 2,
                     md_language = language \<rparr>), s2)
         | (Inr None, s2) \<Rightarrow>
             (case dispatch_provider w provider text language of
                Inl providerError \<Rightarrow>
                  (json_reply 500
                     (ErrorBody (''Grammar check failed: '' @ error_message providerError)),
                   record_call (ProviderCall provider text language) s2)
              | Inr errs \<Rightarrow>
                  (let s3 = record_call (ProviderCall provider text language) s2;
                       s4 = snd (setCachedResult w cacheKey errs CACHE_TTL
                                   (record_call (SetCachedResult cacheKey errs) s3));
                       s5 = snd (incrementProviderUsage w provider
                                   (record_call (IncrementProviderUsage provider) s4))
                   in (json_reply 200
                         (ResultBody errs
                            \<lparr> md_provider = provider,
                              md_processingTime = date_now w 1 - startTime,
                              md_cached = False,
                              md_timestamp = date_now w 2,
                              md_language = language \<rparr>), s5))))"

definition POST :: "world \<Rightarrow> request \<Rightarrow> server_state \<Rightarrow> http_reply \<times> server_state" where
  "POST w request s =
     (case request of
        BodyRejected error \<Rightarrow> (json_reply 500 (ErrorBody ''Internal server error''), s)
      | Body b \<Rightarrow>
          (let text = rq_text b;
               provider = rq_provider b;
               sessionId = rq_sessionId b;
               language = (case rq_language b of None \<Rightarrow> ''en-US'' | Some l \<Rightarrow> l)
           in if \<not> truthy text \<or> typeof text \<noteq> ''string''
              then (json_reply 400 (ErrorBody ''Text is required''), s)
              else if length (string_of text) > MAX_TEXT_LENGTH
              then (json_reply 400
                      (ErrorBody (''Text exceeds maximum length of '' @ decimal MAX_TEXT_LENGTH
                                  @ '' characters'')), s)
              else if \<not> truthy provider \<or> \<not> includes_value known_providers provider
              then (json_reply 400 (ErrorBody ''Invalid provider''), s)
              else check_request w (string_of text) (string_of provider) sessionId language s))"

section \<open>Example inputs\<close>

text \<open>A spelling match on the word \<open>helo\<close> at the start of \<open>helo how are you\<close>, with six
  replacements, and the same match offering the empty string as a replacement for
  the capitalised word of \<open>Helo how are you\<close>.\<close>

definition example_match :: LanguageToolMatch where
  "example_match =
     \<lparr> m_message = ''Possible spelling mistake found.'',
       m_shortMessage = Some ''Spelling mistake'',
       m_offset = 0,
       m_length = 4,
       m_replacements = [''help'', ''hero'', ''hello'', ''held'', ''helot'', ''hell''],
       m_rule_id = ''MORFOLOGIK_RULE_EN_US'',
       m_rule_description = ''Possible spelling mistake'',
       m_rule_category_id = ''TYPOS'',
       m_rule_category_name = ''Possible Typo'',
       m_context = \<lparr> ctx_text = ''helo how are you'', ctx_offset = 0, ctx_length = 4 \<rparr>,
       m_type_typeName = Some ''UnknownWord'' \<rparr>"

definition example_match_empty :: LanguageToolMatch where
  "example_match_empty = example_match\<lparr>m_replacements := [''Hello'', []]\<rparr>"

text \<open>A deployment with no credentials and no store configured: the rule-based service
  answers with \<open>example_match\<close>, OpenRouter answers 429, the OpenAI client cannot
  connect, \<open>JSON.parse\<close> rejects every content; the digest is the SHA-256 of the
  example text, and a placeholder of the same shape for any other text.\<close>

definition example_world :: world where
  "example_world =
     \<lparr> KV_URL = None,
       KV_REST_API_URL = None,
       KV_REST_API_TOKEN = None,
       OPENAI_API_KEY = None,
       OPENROUTER_API_KEY = None,
       languagetool_fetch =
         (\<lambda>text language. HttpResponse True 200 ''OK'' (Inr \<lparr> matches = Some [example_match] \<rparr>)),
       openrouter_fetch =
         (\<lambda>apiKey text language.
            HttpResponse False 429 ''Too Many Requests'' (Inl (SyntaxError ''Unexpected token''))),
       openai_create = (\<lambda>apiKey text language. Inl (Error ''Connection error.'')),
       JSON_parse = (\<lambda>content. Inl (SyntaxError ''Unexpected token'')),
       sha256_hex =
         (\<lambda>text. if text = ''helo how are you''
                  then ''0caedd70293888dc93ebeb63b30628b9ea3be9abe6313404ad47adc523f9585e''
                  else replicate 64 (CHR ''0'')),
       kv_import = None,
       kv_fault = (\<lambda>operation. None),
       date_now = (\<lambda>n. 1700000000000 + int n) \<rparr>"

definition example_world_empty :: world where
  "example_world_empty =
     example_world\<lparr>languagetool_fetch :=
       (\<lambda>text language.
          HttpResponse True 200 ''OK'' (Inr \<lparr> matches = Some [example_match_empty] \<rparr>))\<rparr>"

text \<open>The same deployment with an OpenRouter key (the service still answers 429), and
  with both language-model keys and a parsed model answer of one error that offers
  seven replacements.\<close>

definition example_world_keyed :: world where
  "example_world_keyed = example_world\<lparr>OPENROUTER_API_KEY := Some ''sk-or-v1-example''\<rparr>"

definition example_llm_error :: LLMGrammarError where
  "example_llm_error =
     \<lparr> g_message = ''Possible spelling mistake'',
       g_shortMessage = None,
       g_offset = 0,
       g_length = 4,
       g_replacements = [''hello'', ''help'', ''held'', ''hero'', ''hell'', ''helot'', ''halo''],
       g_ruleId = ''SPELLING_001'',
       g_ruleDescription = ''Misspelled word'',
       g_category = ''Spelling'',
       g_type = Spelling \<rparr>"

definition example_world_llm :: world where
  "example_world_llm =
     example_world
       \<lparr> OPENAI_API_KEY := Some ''sk-example'',
         OPENROUTER_API_KEY := Some ''sk-or-v1-example'',
         openrouter_fetch :=
           (\<lambda>apiKey text language.
              HttpResponse True 200 ''OK'' (Inr \<lparr> choices = Some [Some ''{errors: [...]}''] \<rparr>)),
         openai_create := (\<lambda>apiKey text language. Inr (Some ''{errors: [...]}'')),
         JSON_parse := (\<lambda>content. Inr \<lparr> errors = Some [example_llm_error] \<rparr>) \<rparr>"

text \<open>A deployment with the store configured whose every store operation fails.\<close>

definition example_world_store_down :: world where
  "example_world_store_down =
     example_world
       \<lparr> KV_URL := Some ''redis://example'',
         KV_REST_API_URL := Some ''https://kv.example'',
         KV_REST_API_TOKEN := Some ''token'',
         kv_fault := (\<lambda>operation. Some (Error ''fetch failed'')) \<rparr>"

text \<open>Requests: a text of 10,001 characters, the empty text, and the example text.\<close>

definition long_request :: GrammarCheckRequest where
  "long_request =
     \<lparr> rq_text = JString (replicate 10001 (CHR ''a'')),
       rq_provider = JString ''languagetool'',
       rq_sessionId = Some ''session-1'',
       rq_language = None \<rparr>"

definition empty_request :: GrammarCheckRequest where
  "empty_request = long_request\<lparr>rq_text := JString []\<rparr>"

definition example_request :: GrammarCheckRequest where
  "example_request = long_request\<lparr>rq_text := JString ''helo how are you''\<rparr>"

text \<open>The normalized error the rule-based provider returns for \<open>example_match\<close>.\<close>

definition example_error :: GrammarError where
  "example_error =
     \<lparr> message = ''Possible spelling mistake found.'',
       shortMessage = Some ''Spelling mistake'',
       offset = 0,
       err_length = 4,
       replacements = [''hello'', ''help'', ''hero'', ''held'', ''hell''],
       rule_id = ''MORFOLOGIK_RULE_EN_US'',
       rule_description = ''Possible spelling mistake'',
       rule_category = ''Possible Typo'',
       err_type = Other,
       err_context =
         Some \<lparr> ctx_text = ''helo how are you'', ctx_offset = 0, ctx_length = 4 \<rparr> \<rparr>"

definition initial_state :: server_state where
  "initial_state =
     \<lparr> kv = False,
       cache_entries = Map.empty,
       counters = Map.empty,
       session_markers = Map.empty,
       calls = [] \<rparr>"

section \<open>Properties of the suggestion ranker\<close>

subsection \<open>Auxiliary facts\<close>

lemma sort_by_sort_key: "sort_by by_score_desc xs = sort_key (\<lambda>p. - snd p) xs"
proof -
  have "insert_by by_score_desc x ys = insort_key (\<lambda>p. - snd p) x ys" for x ys
    by (induction ys) (auto simp: by_score_desc_def)
  then show ?thesis
    unfolding sort_by_def sort_key_def by (induction xs) auto
qed

lemma smartOrderSuggestions_alt:
  "smartOrderSuggestions suggestions originalWord fullText errorOffset =
     (case map_throwing (with_score (ranking_score originalWord fullText errorOffset))
             suggestions of
        Inl e \<Rightarrow> Inl e
      | Inr scored \<Rightarrow> Inr (map fst (sort_key (\<lambda>p. - snd p) scored)))"
  unfolding smartOrderSuggestions_def Let_def with_score_def ranking_score_def sort_by_sort_key
  by (rule refl)

lemma map_throwing_Inr: "map_throwing f xs = Inr ys \<longleftrightarrow> map f xs = map Inr ys"
proof (induction xs arbitrary: ys)
  case Nil
  then show ?case by auto
next
  case (Cons x xs)
  show ?case
  proof (cases "f x")
    case (Inl e)
    then show ?thesis by (cases ys) auto
  next
    case (Inr y)
    show ?thesis
    proof (cases "map_throwing f xs")
      case (Inl e)
      with Inr Cons.IH show ?thesis by (cases ys) auto
    next
      case r: (Inr zs)
      with Inr Cons.IH[of zs] Cons.IH show ?thesis by (cases ys) auto
    qed
  qed
qed

lemma map_throwing_Inl:
  assumes "x \<in> set xs" and "f x = Inl e0" and "\<And>y e. f y = Inl e \<Longrightarrow> e = e0"
  shows "map_throwing f xs = Inl e0"
  using assms(1,2)
proof (induction xs)
  case Nil
  then show ?case by simp
next
  case (Cons a xs)
  show ?case
  proof (cases "f a")
    case (Inl e)
    with assms(3) show ?thesis by auto
  next
    case (Inr b)
    with Cons have "x \<in> set xs" by auto
    with Cons Inr show ?thesis by simp
  qed
qed

lemma map_throwing_thrown:
  "map_throwing f xs = Inl e \<Longrightarrow> \<exists>x \<in> set xs. f x = Inl e"
  by (induction xs) (auto split: sum.splits)

lemma map_throwing_elem:
  "map_throwing f xs = Inr ys \<Longrightarrow> y \<in> set ys \<Longrightarrow> \<exists>x \<in> set xs. f x = Inr y"
proof -
  assume "map_throwing f xs = Inr ys" and y: "y \<in> set ys"
  then have "map f xs = map Inr ys" by (simp add: map_throwing_Inr)
  then have "f ` set xs = Inr ` set ys" by (metis set_map)
  with y show ?thesis by (metis (no_types, lifting) image_iff)
qed

lemma with_score_scored:
  assumes "map_throwing (with_score sc) xs = Inr ps"
  shows "map fst ps = xs \<and> (\<forall>p \<in> set ps. sc (fst p) = Inr (snd p))"
proof -
  from assms have m: "map (with_score sc) xs = map Inr ps" by (simp add: map_throwing_Inr)
  have "\<And>ps. map (with_score sc) xs = map Inr ps \<Longrightarrow>
          map fst ps = xs \<and> (\<forall>p \<in> set ps. sc (fst p) = Inr (snd p))"
  proof (induction xs)
    case Nil
    then show ?case by simp
  next
    case (Cons x xs)
    then obtain q qs where ps: "ps = q # qs" by (cases ps) auto
    with Cons.prems have h: "with_score sc x = Inr q"
      and t: "map (with_score sc) xs = map Inr qs"
      by auto
    from h have "fst q = x \<and> sc x = Inr (snd q)"
      by (auto simp: with_score_def split: sum.splits)
    with Cons.IH[OF t] ps show ?case by auto
  qed
  from this[OF m] show ?thesis .
qed

lemma rescoring:
  "\<forall>p \<in> set ps. sc (fst p) = Inr (snd p) \<Longrightarrow>
     map_throwing (with_score sc) (map fst ps) = Inr ps"
  by (induction ps) (auto simp: with_score_def)

lemma lower_helo: "toLowerCase ''helo'' = ''helo''" by code_simp
lemma lower_hello: "toLowerCase ''hello'' = ''hello''" by code_simp
lemma lower_help: "toLowerCase ''help'' = ''help''" by code_simp
lemma lower_helot: "toLowerCase ''helot'' = ''helot''" by code_simp
lemma common_hello: "''hello'' \<in> set COMMON_WORDS" by code_simp
lemma common_help: "''help'' \<in> set COMMON_WORDS" by code_simp
lemma common_helot: "''helot'' \<notin> set COMMON_WORDS" by code_simp
lemma greeting_hello: "''hello'' \<in> set greetings" by code_simp
lemma greeting_help: "''help'' \<notin> set greetings" by code_simp
lemma greeting_helot: "''helot'' \<notin> set greetings" by code_simp
lemma dist_hello: "getEditDistance ''helo'' ''hello'' = 1" by code_simp
lemma dist_help: "getEditDistance ''helo'' ''help'' = 1" by code_simp
lemma dist_helot: "getEditDistance ''helo'' ''helot'' = 1" by code_simp

lemma caps_helo: "keepsCapitalization ''helo'' s = Inr False"
  by (simp add: keepsCapitalization_def startsUpper_def toUpperCase_def toUpperCase_char_def
      lower_letters_def upper_letters_def)

lemma score_hello:
  "scoreSuggestion ''hello'' ''helo'' cb ca True =
     Inr (if ''how'' \<in> set (split_ws (toLowerCase (cb @ '' '' @ ca))) then 87 / 2 else 47 / 2)"
  unfolding scoreSuggestion_def Let_def lower_helo lower_hello caps_helo dist_hello
  by (simp add: common_hello greeting_hello)

lemma score_help:
  "scoreSuggestion ''help'' ''helo'' cb ca True =
     Inr (if ''need'' \<in> set (split_ws (toLowerCase (cb @ '' '' @ ca))) \<or>
             ''can'' \<in> set (split_ws (toLowerCase (cb @ '' '' @ ca))) then 19 else 9)"
  unfolding scoreSuggestion_def Let_def lower_helo lower_help caps_helo dist_help
  by (simp add: common_help greeting_help)

lemma score_helot: "scoreSuggestion ''helot'' ''helo'' cb ca True = Inr (- (3 / 2))"
  unfolding scoreSuggestion_def Let_def lower_helo lower_helot caps_helo dist_helot
  by (simp add: common_helot greeting_helot)

lemma scoreSuggestion_error:
  "scoreSuggestion s w cb ca b = Inl e \<Longrightarrow> e = toUpperCase_of_undefined"
  unfolding scoreSuggestion_def keepsCapitalization_def startsUpper_def Let_def
  by (auto split: sum.splits list.splits bool.splits if_splits)

lemma with_score_error:
  "with_score (ranking_score w t off) s = Inl e \<Longrightarrow> e = toUpperCase_of_undefined"
  unfolding with_score_def ranking_score_def
  by (auto split: sum.splits dest: scoreSuggestion_error)

lemma normalizeMatch_error:
  "normalizeMatch m t = Inl e \<Longrightarrow> e = toUpperCase_of_undefined"
proof -
  assume "normalizeMatch m t = Inl e"
  then obtain sugg w off where "smartOrderSuggestions sugg w t off = Inl e"
    unfolding normalizeMatch_def Let_def by (auto split: sum.splits)
  then have "map_throwing (with_score (ranking_score w t off)) sugg = Inl e"
    unfolding smartOrderSuggestions_alt by (auto split: sum.splits)
  then obtain x where "with_score (ranking_score w t off) x = Inl e"
    by (blast dest: map_throwing_thrown)
  then show ?thesis by (rule with_score_error)
qed

text \<open>When the code gives the capitalization bonus: both words are non-empty and the
  first character of each equals its own uppercase form.\<close>

lemma keepsCapitalization_True:
  "keepsCapitalization originalWord suggestion = Inr True \<longleftrightarrow>
     (\<exists>c cs d ds. originalWord = c # cs \<and> suggestion = d # ds
        \<and> toUpperCase [c] = [c] \<and> toUpperCase [d] = [d])"
  unfolding keepsCapitalization_def startsUpper_def
  by (cases originalWord; cases suggestion) (auto split: bool.splits)

lemma scoreSuggestion_bonus:
  "scoreSuggestion s w cb ca b = Inr x \<Longrightarrow> scoreSuggestion s' w cb ca b = Inr x' \<Longrightarrow>
   toLowerCase s' = toLowerCase s \<Longrightarrow> length s' = length s \<Longrightarrow>
   keepsCapitalization w s = Inr True \<Longrightarrow> keepsCapitalization w s' = Inr False \<Longrightarrow>
   x = x' + 5"
  unfolding scoreSuggestion_def Let_def by (simp split: if_splits)

subsection \<open>The ranking scenario\<close>

text \<open>
  Claim C6. For the original word \<open>helo\<close> with the candidates \<open>hello\<close>, \<open>help\<close>,
  \<open>helot\<close> and the error at offset 0, the ranker places \<open>hello\<close> first. This holds
  for every text the error stands in, in particular for \<open>helo how are you\<close>: the
  result is \<open>hello\<close>, \<open>help\<close>, \<open>helot\<close>, and with \<open>how are you\<close> after the error
  \<open>hello\<close> scores 43.5 (common word 10, greeting 15, length difference 0.5 and edit
  distance 1 off, phrase bonus 20).
\<close>

theorem ranking_scenario_hello_first:
  "smartOrderSuggestions [''hello'', ''help'', ''helot''] ''helo'' fullText 0
     = Inr [''hello'', ''help'', ''helot'']
   \<and> ranking_score ''helo'' ''helo how are you'' 0 ''hello'' = Inr (87 / 2)
   \<and> ranking_score ''helo'' ''helo how are you'' 0 ''help'' = Inr 9
   \<and> ranking_score ''helo'' ''helo how are you'' 0 ''helot'' = Inr (- (3 / 2))"
proof -
  have "smartOrderSuggestions [''hello'', ''help'', ''helot''] ''helo'' fullText 0
          = Inr [''hello'', ''help'', ''helot'']"
    unfolding smartOrderSuggestions_def Let_def
    by (simp add: score_hello score_help score_helot sort_by_def by_score_desc_def)
  moreover have "ranking_score ''helo'' ''helo how are you'' 0 ''hello'' = Inr (87 / 2)"
    by code_simp
  moreover have "ranking_score ''helo'' ''helo how are you'' 0 ''help'' = Inr 9"
    by code_simp
  moreover have "ranking_score ''helo'' ''helo how are you'' 0 ''helot'' = Inr (- (3 / 2))"
    by code_simp
  ultimately show ?thesis by blast
qed

subsection \<open>The capitalization bonus\<close>

text \<open>
  Claim C7 says the score has a bonus of 5 exactly when the first letters of the
  candidate and of the original word are both uppercase or both lowercase. The code
  gives the bonus only when both first characters equal their own uppercase form:
  for the lowercase pair \<open>helo\<close> / \<open>hello\<close> the test of lines 80-81 is false and the
  score is 10 - 0.5 - 1 = 8.5, while the capitalised pair \<open>Helo\<close> / \<open>Hello\<close>, equal
  in every other term of the score, gets 13.5.
\<close>

theorem capitalization_bonus_lowercase_pair:
  "keepsCapitalization ''helo'' ''hello'' = Inr False
   \<and> scoreSuggestion ''hello'' ''helo'' [] [] False = Inr (17 / 2)
   \<and> keepsCapitalization ''Helo'' ''Hello'' = Inr True
   \<and> scoreSuggestion ''Hello'' ''Helo'' [] [] False = Inr (27 / 2)"
  by code_simp

subsection \<open>Idempotence and stability\<close>

text \<open>
  Claim C8. The ranker is idempotent: when it returns an order for a list of
  candidates (original word, full text and offset fixed), it returns the same order
  for that output. Ties are broken by input order: for every score, the candidates
  with that score stand in the output in the order they have in the input.
\<close>

theorem smartOrderSuggestions_idempotent_stable:
  assumes "smartOrderSuggestions suggestions originalWord fullText errorOffset = Inr ordered"
  shows "smartOrderSuggestions ordered originalWord fullText errorOffset = Inr ordered
       \<and> (\<forall>k. filter (\<lambda>s. ranking_score originalWord fullText errorOffset s = Inr k) ordered
             = filter (\<lambda>s. ranking_score originalWord fullText errorOffset s = Inr k)
                 suggestions)"
proof -
  let ?sc = "ranking_score originalWord fullText errorOffset"
  let ?key = "\<lambda>p :: string \<times> rat. - snd p"
  from assms obtain scored where
    sc: "map_throwing (with_score ?sc) suggestions = Inr scored" and
    ord: "ordered = map fst (sort_key ?key scored)"
    by (auto simp: smartOrderSuggestions_alt split: sum.splits)
  have fst_scored: "map fst scored = suggestions"
    and snd_scored: "\<forall>p \<in> set scored. ?sc (fst p) = Inr (snd p)"
    using with_score_scored[OF sc] by auto
  have "\<forall>p \<in> set (sort_key ?key scored). ?sc (fst p) = Inr (snd p)"
    using snd_scored by simp
  then have again: "map_throwing (with_score ?sc) ordered = Inr (sort_key ?key scored)"
    unfolding ord by (rule rescoring)
  have "sort_key ?key (sort_key ?key scored) = sort_key ?key scored"
    by (rule sort_key_id_if_sorted) (rule sorted_sort_key)
  with again ord
  have idem: "smartOrderSuggestions ordered originalWord fullText errorOffset = Inr ordered"
    by (simp add: smartOrderSuggestions_alt)
  have stable: "filter (\<lambda>s. ?sc s = Inr k) ordered = filter (\<lambda>s. ?sc s = Inr k) suggestions"
    for k
  proof -
    have same: "filter (\<lambda>s. ?sc s = Inr k) (map fst ps)
                  = map fst (filter (\<lambda>p. ?key p = - k) ps)"
      if "\<forall>p \<in> set ps. ?sc (fst p) = Inr (snd p)" for ps
      using that by (induction ps) auto
    have "filter (\<lambda>s. ?sc s = Inr k) ordered
            = map fst (filter (\<lambda>p. ?key p = - k) (sort_key ?key scored))"
      unfolding ord using snd_scored by (intro same) simp
    also have "\<dots> = map fst (filter (\<lambda>p. ?key p = - k) scored)"
      by (simp only: sort_key_stable)
    also have "\<dots> = filter (\<lambda>s. ?sc s = Inr k) (map fst scored)"
      using same[OF snd_scored] by simp
    finally show ?thesis by (simp add: fst_scored)
  qed
  from idem stable show ?thesis by blast
qed

text \<open>An instance with a tie: \<open>helot\<close> and \<open>helos\<close> both score -1.5 and keep their
  input order behind \<open>hello\<close>; ranking the result again changes nothing.\<close>

theorem smartOrderSuggestions_idempotent_stable_witness:
  "smartOrderSuggestions [''helot'', ''helos'', ''hello''] ''helo'' ''helo how are you'' 0
     = Inr [''hello'', ''helot'', ''helos'']
   \<and> smartOrderSuggestions [''hello'', ''helot'', ''helos''] ''helo'' ''helo how are you'' 0
     = Inr [''hello'', ''helot'', ''helos'']
   \<and> filter (\<lambda>s. ranking_score ''helo'' ''helo how are you'' 0 s = Inr (- (3 / 2)))
        [''hello'', ''helot'', ''helos'']
     = filter (\<lambda>s. ranking_score ''helo'' ''helo how are you'' 0 s = Inr (- (3 / 2)))
        [''helot'', ''helos'', ''hello'']"
proof -
  have h: "smartOrderSuggestions [''helot'', ''helos'', ''hello''] ''helo''
             ''helo how are you'' 0 = Inr [''hello'', ''helot'', ''helos'']"
    by code_simp
  from smartOrderSuggestions_idempotent_stable[OF h] h show ?thesis by blast
qed

subsection \<open>The scoring function is partial\<close>

text \<open>
  Claim C10. The scoring function is not total: for an original word whose first
  character equals its own uppercase form and the empty string as candidate,
  \<open>scoreSuggestion\<close> throws the TypeError of calling \<open>toUpperCase\<close> on \<open>undefined\<close>,
  whatever the context. The rule-based check reaches this branch: when the service
  answers with a match that offers the empty string as a replacement for such a
  word of the text, \<open>normalizeMatch\<close> throws and \<open>checkWithLanguageTool\<close> fails with
  that error wrapped as its provider error.
\<close>

theorem scoreSuggestion_throws_on_empty_candidate:
  assumes "toUpperCase [c] = [c]"
  shows "scoreSuggestion [] (c # rest) contextBefore contextAfter isStartOfSentence
           = Inl toUpperCase_of_undefined
       \<and> (\<forall>w text language st stt data ms match.
            languagetool_fetch w text language = HttpResponse True st stt (Inr data)
            \<and> matches data = Some ms \<and> match \<in> set ms
            \<and> [] \<in> set (m_replacements match)
            \<and> substring text (m_offset match) (m_offset match + m_length match) = c # rest
            \<longrightarrow> normalizeMatch match text = Inl toUpperCase_of_undefined
              \<and> checkWithLanguageTool w text language
                  = Inl (languagetool_failure toUpperCase_of_undefined))"
proof -
  have score: "scoreSuggestion [] (c # rest) cb ca b = Inl toUpperCase_of_undefined" for cb ca b
    unfolding scoreSuggestion_def keepsCapitalization_def startsUpper_def Let_def
    using assms by simp
  have norm: "normalizeMatch match fullText = Inl toUpperCase_of_undefined"
    if "[] \<in> set (m_replacements match)"
      and "substring fullText (m_offset match) (m_offset match + m_length match) = c # rest"
    for match fullText
  proof -
    let ?f = "with_score (ranking_score (c # rest) fullText (m_offset match))"
    have "?f [] = Inl toUpperCase_of_undefined"
      unfolding with_score_def ranking_score_def by (simp add: score)
    with that(1) have "map_throwing ?f (m_replacements match) = Inl toUpperCase_of_undefined"
      by (rule map_throwing_Inl) (rule with_score_error)
    then show ?thesis
      unfolding normalizeMatch_def Let_def that(2) smartOrderSuggestions_alt by simp
  qed
  have check: "checkWithLanguageTool w fullText language
                 = Inl (languagetool_failure toUpperCase_of_undefined)"
    if "languagetool_fetch w fullText language = HttpResponse True st stt (Inr data)"
      and "matches data = Some ms" and "match \<in> set ms"
      and "normalizeMatch match fullText = Inl toUpperCase_of_undefined"
    for w fullText language st stt data ms match
  proof -
    have "map_throwing (\<lambda>m. normalizeMatch m fullText) ms = Inl toUpperCase_of_undefined"
      using that(3,4) by (rule map_throwing_Inl) (rule normalizeMatch_error)
    then show ?thesis
      unfolding checkWithLanguageTool_def by (simp add: that(1,2))
  qed
  from score norm check show ?thesis by blast
qed

theorem scoreSuggestion_throws_on_empty_candidate_witness:
  "toUpperCase ''H'' = ''H''
   \<and> scoreSuggestion [] ''Helo'' [] '' how are you'' True = Inl toUpperCase_of_undefined
   \<and> normalizeMatch example_match_empty ''Helo how are you'' = Inl toUpperCase_of_undefined
   \<and> checkWithLanguageTool example_world_empty ''Helo how are you'' ''en-US''
       = Inl (Error ''Failed to check text with LanguageTool: Cannot read properties of undefined (reading toUpperCase)'')"
proof -
  have up: "toUpperCase ''H'' = ''H''" by code_simp
  have f: "languagetool_fetch example_world_empty ''Helo how are you'' ''en-US''
             = HttpResponse True 200 ''OK'' (Inr \<lparr> matches = Some [example_match_empty] \<rparr>)"
    by (simp add: example_world_empty_def example_world_def)
  have r: "[] \<in> set (m_replacements example_match_empty)"
    by (simp add: example_match_empty_def example_match_def)
  have w: "substring ''Helo how are you'' (m_offset example_match_empty)
             (m_offset example_match_empty + m_length example_match_empty) = ''Helo''"
    by (simp add: example_match_empty_def example_match_def substring_def)
  have e: "languagetool_failure toUpperCase_of_undefined
             = Error ''Failed to check text with LanguageTool: Cannot read properties of undefined (reading toUpperCase)''"
    by (simp add: languagetool_failure_def toUpperCase_of_undefined_def)
  note thrown =
    scoreSuggestion_throws_on_empty_candidate[OF up, of "''elo''" "[]" "'' how are you''" True]
  have m: "example_match_empty \<in> set [example_match_empty]" by simp
  have "normalizeMatch example_match_empty ''Helo how are you'' = Inl toUpperCase_of_undefined
        \<and> checkWithLanguageTool example_world_empty ''Helo how are you'' ''en-US''
            = Inl (languagetool_failure toUpperCase_of_undefined)"
    using conjunct2[OF thrown, rule_format,
        of example_world_empty "''Helo how are you''" "''en-US''" 200 "''OK''"
           "\<lparr> matches = Some [example_match_empty] \<rparr>" "[example_match_empty]"
           example_match_empty] f r w m
    by simp
  with conjunct1[OF thrown] up e show ?thesis by simp
qed

section \<open>Properties of the providers\<close>

subsection \<open>Auxiliary facts\<close>

lemma openrouter_attempt_fails:
  "openrouter_call_fails w t l \<Longrightarrow>
     isl (openrouter_attempt w (str_value (OPENROUTER_API_KEY w)) t l)"
  unfolding openrouter_call_fails_def openrouter_attempt_def first_choice_content_def
  by (auto simp: truthy_env_def str_value_def
      split: http_outcome.splits sum.splits option.splits list.splits if_splits)

lemma languagetool_example:
  "checkWithLanguageTool example_world ''helo how are you'' ''en-US'' = Inr [example_error]"
  by code_simp

lemma languagetool_keyed:
  "checkWithLanguageTool example_world_keyed t l = checkWithLanguageTool example_world t l"
  by (simp add: checkWithLanguageTool_def example_world_keyed_def)

subsection \<open>The fallback of the free-tier provider\<close>

text \<open>
  Claim C1. For every text and language: if no OpenRouter credential is configured
  (the variable is unset or empty), or the call fails (rejected request, response
  that is not 2xx, body that is not JSON, missing or empty content, content that is
  not JSON), \<open>checkWithOpenRouter\<close> returns exactly what \<open>checkWithLanguageTool\<close>
  returns for the same text and language. No error of the OpenRouter attempt is ever
  propagated: whenever \<open>checkWithOpenRouter\<close> fails, the failure is the one of the
  rule-based check.
\<close>

theorem checkWithOpenRouter_falls_back:
  "(openrouter_unconfigured w \<or> openrouter_call_fails w text language
      \<longrightarrow> checkWithOpenRouter w text language = checkWithLanguageTool w text language)
   \<and> (\<forall>e. checkWithOpenRouter w text language = Inl e
          \<longrightarrow> checkWithLanguageTool w text language = Inl e)"
proof -
  have a: "checkWithOpenRouter w text language = checkWithLanguageTool w text language"
    if "openrouter_unconfigured w"
    using that unfolding checkWithOpenRouter_def openrouter_unconfigured_def truthy_env_def
    by auto
  have b: "checkWithOpenRouter w text language = checkWithLanguageTool w text language"
    if "openrouter_call_fails w text language"
    using openrouter_attempt_fails[OF that] unfolding checkWithOpenRouter_def
    by (auto split: sum.splits)
  have c: "checkWithLanguageTool w text language = Inl e"
    if "checkWithOpenRouter w text language = Inl e" for e
    using that unfolding checkWithOpenRouter_def
    by (auto split: sum.splits if_splits)
  from a b c show ?thesis by blast
qed

theorem checkWithOpenRouter_falls_back_witness:
  "openrouter_unconfigured example_world
   \<and> checkWithOpenRouter example_world ''helo how are you'' ''en-US'' = Inr [example_error]
   \<and> openrouter_call_fails example_world_keyed ''helo how are you'' ''en-US''
   \<and> checkWithOpenRouter example_world_keyed ''helo how are you'' ''en-US''
       = Inr [example_error]"
proof -
  have u: "openrouter_unconfigured example_world"
    by (simp add: openrouter_unconfigured_def example_world_def)
  have f: "openrouter_call_fails example_world_keyed ''helo how are you'' ''en-US''"
    by (simp add: openrouter_call_fails_def example_world_keyed_def example_world_def)
  from u checkWithOpenRouter_falls_back[of example_world "''helo how are you''" "''en-US''"]
  have 1: "checkWithOpenRouter example_world ''helo how are you'' ''en-US''
             = Inr [example_error]"
    by (simp add: languagetool_example)
  from f checkWithOpenRouter_falls_back[of example_world_keyed "''helo how are you''" "''en-US''"]
  have 2: "checkWithOpenRouter example_world_keyed ''helo how are you'' ''en-US''
             = Inr [example_error]"
    by (simp add: languagetool_keyed languagetool_example)
  from u f 1 2 show ?thesis by simp
qed

subsection \<open>The cap on replacements\<close>

text \<open>What \<open>map\<close> with a throwing callback returns, element by element; the
  replacements \<open>normalizeMatch\<close> keeps; the ranker returns its candidates reordered.\<close>

lemma map_throwing_all2:
  "map_throwing f xs = Inr ys \<Longrightarrow> list_all2 (\<lambda>x y. f x = Inr y) xs ys"
proof (induction xs arbitrary: ys)
  case Nil
  then show ?case by simp
next
  case (Cons x xs)
  then show ?case by (auto split: sum.splits)
qed

lemma normalizeMatch_take:
  "normalizeMatch m t = Inr e \<Longrightarrow>
     \<exists>ordered. smartOrderSuggestions (m_replacements m)
                  (substring t (m_offset m) (m_offset m + m_length m)) t (m_offset m) = Inr ordered
               \<and> replacements e = take 5 ordered"
  unfolding normalizeMatch_def Let_def by (auto split: sum.splits)

lemma smartOrderSuggestions_length:
  "smartOrderSuggestions xs w t off = Inr ys \<Longrightarrow> length ys = length xs \<and> set ys = set xs"
proof -
  assume a: "smartOrderSuggestions xs w t off = Inr ys"
  then obtain scored where
    sc: "map_throwing (with_score (ranking_score w t off)) xs = Inr scored" and
    ord: "ys = map fst (sort_key (\<lambda>p. - snd p) scored)"
    by (auto simp: smartOrderSuggestions_alt split: sum.splits)
  from with_score_scored[OF sc] have "map fst scored = xs" by simp
  then have "length scored = length xs" "fst ` set scored = set xs"
    by (metis length_map, metis set_map)
  with ord show ?thesis by simp
qed

lemma ranked_example:
  "smartOrderSuggestions (m_replacements example_match) ''helo'' ''helo how are you'' 0
     = Inr [''hello'', ''help'', ''hero'', ''held'', ''hell'', ''helot'']"
  by code_simp

lemma languagetool_llm:
  "checkWithLanguageTool example_world_llm t l = checkWithLanguageTool example_world t l"
  by (simp add: checkWithLanguageTool_def example_world_llm_def)

text \<open>
  Claim C4. For each of the three provider variants, every error of a successfully
  returned list has at most 5 replacements, and they are the first 5 of the
  candidate list: for the rule-based variant the first 5 of the ranker's order of
  the match's replacements, for the two language-model variants the first 5 of the
  replacements of the parsed error, in order. The free-tier variant returns either
  the rule-based result (its fallback) or the errors of its own parsed answer.
\<close>

theorem replacements_capped:
  "(checkWithLanguageTool w text language = Inr result
      \<longrightarrow> (\<forall>e \<in> set result. length (replacements e) \<le> 5))
   \<and> (checkWithOpenAI w text language = Inr result
      \<longrightarrow> (\<forall>e \<in> set result. length (replacements e) \<le> 5))
   \<and> (checkWithOpenRouter w text language = Inr result
      \<longrightarrow> (\<forall>e \<in> set result. length (replacements e) \<le> 5))
   \<and> (checkWithLanguageTool w text language = Inr result
      \<longrightarrow> (\<exists>st stt data ms.
            languagetool_fetch w text language = HttpResponse True st stt (Inr data)
            \<and> matches data = Some ms
            \<and> list_all2
                 (\<lambda>match e.
                    \<exists>ordered.
                      smartOrderSuggestions (m_replacements match)
                        (substring text (m_offset match) (m_offset match + m_length match))
                        text (m_offset match) = Inr ordered
                      \<and> length ordered = length (m_replacements match)
                      \<and> set ordered = set (m_replacements match)
                      \<and> replacements e = take 5 ordered)
                 ms result))
   \<and> (checkWithOpenAI w text language = Inr result
      \<longrightarrow> (\<exists>content response.
            openai_create w (str_value (OPENAI_API_KEY w)) text language = Inr (Some content)
            \<and> JSON_parse w content = Inr response
            \<and> map replacements result
                = map (\<lambda>g. take 5 (g_replacements g))
                    (case errors response of None \<Rightarrow> [] | Some es \<Rightarrow> es)))
   \<and> (checkWithOpenRouter w text language = Inr result
      \<longrightarrow> checkWithLanguageTool w text language = Inr result
          \<or> (\<exists>st stt data content response.
                openrouter_fetch w (str_value (OPENROUTER_API_KEY w)) text language
                  = HttpResponse True st stt (Inr data)
                \<and> first_choice_content data = Inr (Some content)
                \<and> JSON_parse w content = Inr response
                \<and> map replacements result
                    = map (\<lambda>g. take 5 (g_replacements g))
                        (case errors response of None \<Rightarrow> [] | Some es \<Rightarrow> es)))"
proof -
  have norm: "length (replacements e) \<le> 5" if "normalizeMatch m t = Inr e" for m t e
    using that unfolding normalizeMatch_def Let_def by (auto split: sum.splits)
  have lt: "\<forall>e \<in> set r. length (replacements e) \<le> 5"
    if "checkWithLanguageTool w t l = Inr r" for t l r
  proof -
    from that obtain ms where "map_throwing (\<lambda>m. normalizeMatch m t) ms = Inr r"
      unfolding checkWithLanguageTool_def
      by (auto split: http_outcome.splits if_splits sum.splits option.splits)
    then show ?thesis by (blast dest: map_throwing_elem norm)
  qed
  have oa: "\<forall>e \<in> set r. length (replacements e) \<le> 5"
    if "checkWithOpenAI w t l = Inr r" for t l r
    using that unfolding checkWithOpenAI_def normalizeOpenAIError_def
    by (auto split: if_splits sum.splits option.splits)
  have att: "\<forall>e \<in> set r. length (replacements e) \<le> 5"
    if "openrouter_attempt w k t l = Inr r" for k t l r
    using that unfolding openrouter_attempt_def normalizeOpenRouterError_def
    by (auto split: http_outcome.splits if_splits sum.splits option.splits)
  have orr: "\<forall>e \<in> set r. length (replacements e) \<le> 5"
    if "checkWithOpenRouter w t l = Inr r" for t l r
    using that lt att unfolding checkWithOpenRouter_def
    by (auto split: if_splits sum.splits)
  have lt5: "\<exists>st stt data ms.
            languagetool_fetch w t l = HttpResponse True st stt (Inr data)
            \<and> matches data = Some ms
            \<and> list_all2
                 (\<lambda>match e.
                    \<exists>ordered.
                      smartOrderSuggestions (m_replacements match)
                        (substring t (m_offset match) (m_offset match + m_length match))
                        t (m_offset match) = Inr ordered
                      \<and> length ordered = length (m_replacements match)
                      \<and> set ordered = set (m_replacements match)
                      \<and> replacements e = take 5 ordered)
                 ms r"
    if "checkWithLanguageTool w t l = Inr r" for t l r
  proof -
    from that obtain st stt data ms where
      f: "languagetool_fetch w t l = HttpResponse True st stt (Inr data)"
      and m: "matches data = Some ms"
      and r: "map_throwing (\<lambda>m. normalizeMatch m t) ms = Inr r"
      unfolding checkWithLanguageTool_def
      by (auto split: http_outcome.splits if_splits sum.splits option.splits)
    from map_throwing_all2[OF r]
    have "list_all2 (\<lambda>m e. normalizeMatch m t = Inr e) ms r" .
    then have "list_all2
                 (\<lambda>match e.
                    \<exists>ordered.
                      smartOrderSuggestions (m_replacements match)
                        (substring t (m_offset match) (m_offset match + m_length match))
                        t (m_offset match) = Inr ordered
                      \<and> length ordered = length (m_replacements match)
                      \<and> set ordered = set (m_replacements match)
                      \<and> replacements e = take 5 ordered) ms r"
      by (rule list_all2_mono) (blast dest: normalizeMatch_take smartOrderSuggestions_length)
    with f m show ?thesis by blast
  qed
  have oa5: "\<exists>content response.
            openai_create w (str_value (OPENAI_API_KEY w)) t l = Inr (Some content)
            \<and> JSON_parse w content = Inr response
            \<and> map replacements r
                = map (\<lambda>g. take 5 (g_replacements g))
                    (case errors response of None \<Rightarrow> [] | Some es \<Rightarrow> es)"
    if "checkWithOpenAI w t l = Inr r" for t l r
    using that unfolding checkWithOpenAI_def normalizeOpenAIError_def
    by (auto simp: truthy_env_def str_value_def comp_def split: if_splits sum.splits option.splits)
  have att5: "\<exists>st stt data content response.
                openrouter_fetch w k t l = HttpResponse True st stt (Inr data)
                \<and> first_choice_content data = Inr (Some content)
                \<and> JSON_parse w content = Inr response
                \<and> map replacements r
                    = map (\<lambda>g. take 5 (g_replacements g))
                        (case errors response of None \<Rightarrow> [] | Some es \<Rightarrow> es)"
    if "openrouter_attempt w k t l = Inr r" for k t l r
    using that unfolding openrouter_attempt_def normalizeOpenRouterError_def
    by (auto simp: truthy_env_def str_value_def comp_def
        split: http_outcome.splits if_splits sum.splits option.splits)
  have orr5: "checkWithLanguageTool w t l = Inr r
          \<or> (\<exists>st stt data content response.
                openrouter_fetch w (str_value (OPENROUTER_API_KEY w)) t l
                  = HttpResponse True st stt (Inr data)
                \<and> first_choice_content data = Inr (Some content)
                \<and> JSON_parse w content = Inr response
                \<and> map replacements r
                    = map (\<lambda>g. take 5 (g_replacements g))
                        (case errors response of None \<Rightarrow> [] | Some es \<Rightarrow> es))"
    if "checkWithOpenRouter w t l = Inr r" for t l r
    using that att5 unfolding checkWithOpenRouter_def
    by (auto split: if_splits sum.splits)
  show ?thesis
    by (intro conjI impI;
        (erule lt | erule oa | erule orr | erule lt5 | erule oa5 | erule orr5))
qed

text \<open>The rule-based provider ranks the six replacements of \<open>example_match\<close> and keeps
  the first five; the two language-model providers keep the first five of the seven
  of \<open>example_llm_error\<close>.\<close>

theorem replacements_capped_witness:
  "checkWithLanguageTool example_world ''helo how are you'' ''en-US'' = Inr [example_error]
   \<and> length (replacements example_error) \<le> 5
   \<and> replacements example_error
       = take 5 [''hello'', ''help'', ''hero'', ''held'', ''hell'', ''helot'']
   \<and> checkWithOpenAI example_world_llm ''helo how are you'' ''en-US''
       = Inr [normalizeOpenAIError example_llm_error]
   \<and> length (replacements (normalizeOpenAIError example_llm_error)) \<le> 5
   \<and> replacements (normalizeOpenAIError example_llm_error)
       = [''hello'', ''help'', ''held'', ''hero'', ''hell'']
   \<and> checkWithOpenRouter example_world_llm ''helo how are you'' ''en-US''
       = Inr [normalizeOpenRouterError example_llm_error]
   \<and> length (replacements (normalizeOpenRouterError example_llm_error)) \<le> 5
   \<and> replacements (normalizeOpenRouterError example_llm_error)
       = [''hello'', ''help'', ''held'', ''hero'', ''hell'']"
proof -
  let ?t = "''helo how are you''" and ?l = "''en-US''"
  have oa: "checkWithOpenAI example_world_llm ?t ?l = Inr [normalizeOpenAIError example_llm_error]"
    by (simp add: checkWithOpenAI_def example_world_llm_def example_world_def truthy_env_def
        str_value_def)
  have orr: "checkWithOpenRouter example_world_llm ?t ?l
               = Inr [normalizeOpenRouterError example_llm_error]"
    by (simp add: checkWithOpenRouter_def openrouter_attempt_def first_choice_content_def
        example_world_llm_def example_world_def truthy_env_def str_value_def)
  note lt_cap = replacements_capped[of example_world ?t ?l "[example_error]"]
  note oa_cap = replacements_capped[of example_world_llm ?t ?l "[normalizeOpenAIError example_llm_error]"]
  note or_cap = replacements_capped[of example_world_llm ?t ?l "[normalizeOpenRouterError example_llm_error]"]
  from lt_cap have 1: "length (replacements example_error) \<le> 5"
    by (simp add: languagetool_example)
  from oa_cap oa have 2: "length (replacements (normalizeOpenAIError example_llm_error)) \<le> 5"
    by simp
  from or_cap orr
  have 3: "length (replacements (normalizeOpenRouterError example_llm_error)) \<le> 5"
    by simp
  have w: "substring ?t (m_offset example_match) (m_offset example_match + m_length example_match)
             = ''helo''"
    by (simp add: example_match_def substring_def)
  have off: "m_offset example_match = 0" by (simp add: example_match_def)
  from lt_cap languagetool_example obtain st stt data ms where
    f: "languagetool_fetch example_world ?t ?l = HttpResponse True st stt (Inr data)"
    and m: "matches data = Some ms"
    and a: "list_all2
              (\<lambda>match e.
                 \<exists>ordered.
                   smartOrderSuggestions (m_replacements match)
                     (substring ?t (m_offset match) (m_offset match + m_length match))
                     ?t (m_offset match) = Inr ordered
                   \<and> length ordered = length (m_replacements match)
                   \<and> set ordered = set (m_replacements match)
                   \<and> replacements e = take 5 ordered)
              ms [example_error]"
    by blast
  from f m have "ms = [example_match]" by (auto simp: example_world_def)
  with a w off ranked_example
  have 4: "replacements example_error
             = take 5 [''hello'', ''help'', ''hero'', ''held'', ''hell'', ''helot'']"
    by simp
  from oa_cap oa obtain content response where
    "JSON_parse example_world_llm content = Inr response"
    and r: "map replacements [normalizeOpenAIError example_llm_error]
             = map (\<lambda>g. take 5 (g_replacements g))
                 (case errors response of None \<Rightarrow> [] | Some es \<Rightarrow> es)"
    by blast
  then have "response = \<lparr> errors = Some [example_llm_error] \<rparr>"
    by (auto simp: example_world_llm_def)
  with r have 5: "replacements (normalizeOpenAIError example_llm_error)
                    = [''hello'', ''help'', ''held'', ''hero'', ''hell'']"
    by (simp add: example_llm_error_def)
  have "checkWithLanguageTool example_world_llm ?t ?l
          \<noteq> Inr [normalizeOpenRouterError example_llm_error]"
    by (simp add: languagetool_llm languagetool_example example_error_def
        normalizeOpenRouterError_def example_llm_error_def)
  with or_cap orr obtain content' response' where
    "JSON_parse example_world_llm content' = Inr response'"
    and r': "map replacements [normalizeOpenRouterError example_llm_error]
              = map (\<lambda>g. take 5 (g_replacements g))
                  (case errors response' of None \<Rightarrow> [] | Some es \<Rightarrow> es)"
    by blast
  then have "response' = \<lparr> errors = Some [example_llm_error] \<rparr>"
    by (auto simp: example_world_llm_def)
  with r' have 6: "replacements (normalizeOpenRouterError example_llm_error)
                     = [''hello'', ''help'', ''held'', ''hero'', ''hell'']"
    by (simp add: example_llm_error_def)
  from languagetool_example oa orr 1 2 3 4 5 6 show ?thesis by simp
qed

section \<open>Properties of the cache\<close>

subsection \<open>Auxiliary facts\<close>

lemma substring_take: "substring s 0 (int n) = take n s"
proof -
  have a: "nat (min (int n) (int (length s))) = min n (length s)" by simp
  have b: "take (min n (length s)) s = take n s" by (simp add: min_def)
  show ?thesis
    unfolding substring_def Let_def using a b by (simp add: min_absorb2 max_absorb2)
qed

subsection \<open>The cache key\<close>

text \<open>
  Claim C2. \<open>generateCacheKey\<close> has no error case and returns, for every provider,
  language and text, the string \<open>grammar:{provider}:{language}:{h}\<close>, where \<open>h\<close> is the
  first 16 characters of the hexadecimal digest of the text: 16 hexadecimal digits
  when the digest has the shape of a SHA-256 digest. The key depends on nothing but
  the three arguments and the digest of the text, so equal arguments give equal keys.
  (SHA-256 itself is the runtime's, the field \<open>sha256_hex\<close> of the world.)
\<close>

theorem generateCacheKey_format:
  "generateCacheKey w provider language text
     = ''grammar:'' @ provider @ '':'' @ language @ '':'' @ take 16 (sha256_hex w text)
   \<and> (is_sha256_hex (sha256_hex w text)
        \<longrightarrow> length (take 16 (sha256_hex w text)) = 16
          \<and> list_all (\<lambda>c. c \<in> set hex_digits) (take 16 (sha256_hex w text)))
   \<and> (sha256_hex w' text = sha256_hex w text
        \<longrightarrow> generateCacheKey w' provider language text
            = generateCacheKey w provider language text)"
proof -
  have "substring d 0 16 = take 16 d" for d
    using substring_take[of d 16] by simp
  then show ?thesis
    unfolding generateCacheKey_def Let_def is_sha256_hex_def
    by (auto simp: list_all_iff dest: in_set_takeD)
qed

theorem generateCacheKey_format_witness:
  "is_sha256_hex (sha256_hex example_world ''helo how are you'')
   \<and> generateCacheKey example_world ''languagetool'' ''en-US'' ''helo how are you''
       = ''grammar:languagetool:en-US:0caedd70293888dc''
   \<and> length (take 16 (sha256_hex example_world ''helo how are you'')) = 16
   \<and> generateCacheKey example_world_keyed ''languagetool'' ''en-US'' ''helo how are you''
       = generateCacheKey example_world ''languagetool'' ''en-US'' ''helo how are you''"
proof -
  have d: "is_sha256_hex (sha256_hex example_world ''helo how are you'')"
    by (simp add: example_world_def is_sha256_hex_def hex_digits_def)
  have s: "sha256_hex example_world_keyed ''helo how are you''
             = sha256_hex example_world ''helo how are you''"
    by (simp add: example_world_keyed_def)
  note key = generateCacheKey_format[of example_world "''languagetool''" "''en-US''"
      "''helo how are you''" example_world_keyed]
  from key have "generateCacheKey example_world ''languagetool'' ''en-US'' ''helo how are you''
                   = ''grammar:languagetool:en-US:0caedd70293888dc''"
    by (simp add: example_world_def)
  with key d s show ?thesis by simp
qed

subsection \<open>The cache never fails its caller\<close>

text \<open>
  Claim C5. \<open>getCachedResult\<close> never raises: it always returns a value, and that value
  is \<open>null\<close> on a miss, when the store is not configured, and when the store client
  cannot be loaded or the lookup fails. \<open>setCachedResult\<close> always returns without
  raising; when the store is not configured or the write fails it leaves the cached
  entries as they were.
\<close>

theorem cache_never_raises:
  "(\<exists>r. fst (getCachedResult w key s) = Inr r)
   \<and> (\<not> isKVConfigured w \<or> cache_entries s key = None \<or> kv_fault w (KvGet key) \<noteq> None
        \<or> (\<not> kv s \<and> kv_import w \<noteq> None)
      \<longrightarrow> fst (getCachedResult w key s) = Inr None)
   \<and> fst (setCachedResult w key errs ttl s) = Inr ()
   \<and> (\<not> isKVConfigured w \<or> kv_fault w (KvSet key) \<noteq> None
        \<or> (\<not> kv s \<and> kv_import w \<noteq> None)
      \<longrightarrow> cache_entries (snd (setCachedResult w key errs ttl s)) = cache_entries s)"
  unfolding getCachedResult_def getCachedResult_try_def setCachedResult_def
    setCachedResult_try_def getKV_def
  by (auto split: prod.splits sum.splits bool.splits option.splits if_splits)

theorem cache_never_raises_witness:
  "\<not> isKVConfigured example_world
   \<and> fst (getCachedResult example_world ''grammar:languagetool:en-US:0caedd70293888dc''
            initial_state) = Inr None
   \<and> isKVConfigured example_world_store_down
   \<and> fst (getCachedResult example_world_store_down
            ''grammar:languagetool:en-US:0caedd70293888dc'' initial_state) = Inr None
   \<and> fst (setCachedResult example_world_store_down
            ''grammar:languagetool:en-US:0caedd70293888dc'' [example_error] CACHE_TTL
            initial_state) = Inr ()
   \<and> cache_entries (snd (setCachedResult example_world_store_down
            ''grammar:languagetool:en-US:0caedd70293888dc'' [example_error] CACHE_TTL
            initial_state)) = cache_entries initial_state"
proof -
  let ?k = "''grammar:languagetool:en-US:0caedd70293888dc''"
  have u: "\<not> isKVConfigured example_world"
    by (simp add: isKVConfigured_def example_world_def truthy_env_def)
  have c: "isKVConfigured example_world_store_down"
    by (simp add: isKVConfigured_def example_world_store_down_def truthy_env_def)
  have g: "kv_fault example_world_store_down (KvGet ?k) \<noteq> None"
    and p: "kv_fault example_world_store_down (KvSet ?k) \<noteq> None"
    by (simp_all add: example_world_store_down_def)
  note off = cache_never_raises[of example_world ?k initial_state "[example_error]" CACHE_TTL]
  note down = cache_never_raises[of example_world_store_down ?k initial_state
      "[example_error]" CACHE_TTL]
  from off u have 1: "fst (getCachedResult example_world ?k initial_state) = Inr None"
    by blast
  from down g have 2: "fst (getCachedResult example_world_store_down ?k initial_state) = Inr None"
    by blast
  from down have 3: "fst (setCachedResult example_world_store_down ?k [example_error] CACHE_TTL
                       initial_state) = Inr ()"
    by blast
  from down p have 4: "cache_entries (snd (setCachedResult example_world_store_down ?k
                         [example_error] CACHE_TTL initial_state)) = cache_entries initial_state"
    by blast
  from u c 1 2 3 4 show ?thesis by blast
qed

section \<open>Properties of the orchestrator\<close>

subsection \<open>Auxiliary facts\<close>

text \<open>A body that cannot be read is answered with 500, before any validation.\<close>

lemma POST_unreadable_body:
  "POST w (BodyRejected e) s
     = (\<lparr> status = 500, body = ErrorBody ''Internal server error'' \<rparr>, s)"
  by (simp add: POST_def json_reply_def)

lemma generateCacheKey_example:
  "generateCacheKey example_world ''languagetool'' ''en-US'' ''helo how are you''
     = ''grammar:languagetool:en-US:0caedd70293888dc''"
  by (simp add: generateCacheKey_def substring_def example_world_def)

text \<open>A valid request on a deployment without a store: session tracking, the cache
  lookup, the provider call, the cache write and the usage counter are all called,
  in this order, and the reply is the provider's result, not cached.\<close>

lemma POST_example_miss:
  "POST example_world (Body example_request) initial_state
     = (\<lparr> status = 200,
          body = ResultBody [example_error]
                   \<lparr> md_provider = ''languagetool'',
                     md_processingTime = 1,
                     md_cached = False,
                     md_timestamp = 1700000000002,
                     md_language = ''en-US'' \<rparr> \<rparr>,
        initial_state
          \<lparr> calls :=
              [IncrementProviderUsage ''languagetool'',
               SetCachedResult ''grammar:languagetool:en-US:0caedd70293888dc'' [example_error],
               ProviderCall ''languagetool'' ''helo how are you'' ''en-US'',
               GetCachedResult ''grammar:languagetool:en-US:0caedd70293888dc'',
               TrackSession ''session-1''] \<rparr>)"
proof -
  have u: "\<not> isKVConfigured example_world"
    by (simp add: isKVConfigured_def example_world_def truthy_env_def)
  have d: "dispatch_provider example_world ''languagetool'' ''helo how are you'' ''en-US''
             = Inr [example_error]"
    by (simp add: dispatch_provider_def languagetool_example)
  have t: "date_now example_world n = 1700000000000 + int n" for n
    by (simp add: example_world_def)
  show ?thesis
    unfolding POST_def Let_def
    by (simp add: example_request_def long_request_def known_providers_def MAX_TEXT_LENGTH_def
        check_request_def generateCacheKey_example d u t getCachedResult_def
        getCachedResult_try_def getKV_def setCachedResult_def setCachedResult_try_def
        incrementProviderUsage_def incrementProviderUsage_try_def trackSession_def
        trackSession_try_def record_call_def json_reply_def truthy_env_def str_value_def
        initial_state_def Let_def)
qed

subsection \<open>Validation is terminal\<close>

text \<open>
  Claim C3. For every request with a body: if the text is missing or not a string,
  or is longer than 10,000 characters, or the provider is not one of
  \<open>languagetool\<close>, \<open>openai\<close>, \<open>openrouter\<close>, the reply is HTTP 400 with an error
  message, and the state comes back unchanged: no call is recorded (no cache lookup,
  no cache write, no provider call, no session tracking) and the store is untouched.
\<close>

theorem validation_is_terminal:
  assumes "rq_text b = JUndefined \<or> typeof (rq_text b) \<noteq> ''string''
           \<or> length (string_of (rq_text b)) > 10000
           \<or> \<not> includes_value known_providers (rq_provider b)"
  shows "\<exists>msg. POST w (Body b) s = (\<lparr> status = 400, body = ErrorBody msg \<rparr>, s)"
  using assms unfolding POST_def Let_def json_reply_def MAX_TEXT_LENGTH_def
  by auto

text \<open>The text of 10,001 characters.\<close>

theorem validation_is_terminal_witness:
  "length (string_of (rq_text long_request)) = 10001
   \<and> (\<exists>msg. POST example_world (Body long_request) initial_state
               = (\<lparr> status = 400, body = ErrorBody msg \<rparr>, initial_state))"
proof -
  have l: "length (string_of (rq_text long_request)) = 10001"
    by (simp add: long_request_def)
  then have "length (string_of (rq_text long_request)) > 10000" by simp
  then have "\<exists>msg. POST example_world (Body long_request) initial_state
                     = (\<lparr> status = 400, body = ErrorBody msg \<rparr>, initial_state)"
    by (intro validation_is_terminal) blast
  with l show ?thesis by blast
qed

subsection \<open>The empty text\<close>

text \<open>
  Claim C9. A request whose text is the empty string is rejected with HTTP 400 and
  the message \<open>Text is required\<close>, whatever its other fields, and the state comes
  back unchanged (no cache lookup, no provider call): the presence test is
  JavaScript falsiness, and the empty string is falsy.
\<close>

theorem empty_text_rejected:
  "truthy (JString []) = False
   \<and> POST w (Body (b\<lparr>rq_text := JString []\<rparr>)) s
       = (\<lparr> status = 400, body = ErrorBody ''Text is required'' \<rparr>, s)"
  unfolding POST_def Let_def json_reply_def by simp

theorem empty_text_rejected_witness:
  "POST example_world (Body empty_request) initial_state
     = (\<lparr> status = 400, body = ErrorBody ''Text is required'' \<rparr>, initial_state)"
  using empty_text_rejected[of example_world long_request initial_state]
  by (simp add: empty_request_def)

end
